theory Spec2Isabelle
  imports Main
begin

section \<open>The Stripe subscription service\<close>

text \<open>
  \<^verbatim>\<open>stripe-subscription.service.ts\<close> is glue between the host framework's services
  and the payment provider's client. Every collaborator (the host's order, channel,
  payment-method and history services, the entity hydrator, the Stripe client) and the
  two built-ins of the JavaScript runtime the code formats text with are parameters of
  the model, collected in the record \<open>collaborators\<close>. A collaborator answers with a
  value of its declared result type. The one call the source wraps in a \<^verbatim>\<open>try\<close>,
  the provider's \<^verbatim>\<open>subscriptions.update\<close>, may also fail with an exception.

  A method of the service is a value of type \<open>'a action\<close>: the list of the effects it
  caused at its collaborators, in order, and either the value it returned or the error
  it threw. Queries (\<^verbatim>\<open>getActiveOrder\<close>, \<^verbatim>\<open>hydrate\<close>, \<^verbatim>\<open>findAll\<close>,
  \<^verbatim>\<open>getChannelFromToken\<close>, \<^verbatim>\<open>findOneByCode\<close>) leave no effect.
\<close>

subsection \<open>Data\<close>

datatype error =
    UserInputError string
  | Error string
  | RangeError string
  | StripeError string

fun message :: "error \<Rightarrow> string" where
  "message (UserInputError m) = m"
| "message (Error m) = m"
| "message (RangeError m) = m"
| "message (StripeError m) = m"

record channel =
  token :: string

record request_context =
  apiType :: string
  isAuthorized :: bool
  authorizedAsOwnerOnly :: bool
  channel :: channel
  languageCode :: string

record customer =
  emailAddress :: string

text \<open>
  An order as the services hand it over. The relations \<^verbatim>\<open>lines\<close>,
  \<^verbatim>\<open>customer\<close> and \<^verbatim>\<open>shippingLines\<close> are \<open>None\<close> while they are not loaded
  or absent; only the number of lines and of shipping lines matters to the code, so a
  line is its identifier.
\<close>

record order =
  order_id :: nat
  code :: string
  state :: string
  lines :: "nat list option"
  customer :: "customer option"
  shippingLines :: "nat list option"

record payment_method =
  pm_code :: string
  handler_args :: "(string \<times> string) list"

record metadata =
  md_orderCode :: "string option"
  md_channelToken :: "string option"
  md_paymentMethodCode :: "string option"
  md_endDate :: "int option"

record event_data =
  metadata :: metadata
  status :: string
  subscription :: string

record incoming_checkout_webhook =
  data_object :: event_data

record session_params =
  mode :: string
  session_locale :: string
  customer_email :: string
  line_items :: "(string \<times> nat) list"
  trial_period_days :: nat
  session_metadata :: metadata
  success_url :: string
  cancel_url :: string

record checkout_session =
  url :: "string option"

record payment_input =
  input_method :: string
  metadata_subscriptionId :: string

text \<open>
  What \<^verbatim>\<open>orderService.transitionToState\<close> answers: the order, or an error result.
  The source recognises a refusal by \<^verbatim>\<open>instanceof OrderStateTransitionError\<close>,
  the class it imports from \<^verbatim>\<open>@vendure/core\<close>. An error result that is not an
  instance of that class (the host declares its error classes once for each of its two
  APIs, under the same names) is the third constructor: the test does not recognise it.
  The host is not under the sources, and the model leaves open which of the two its
  order service answers with.
\<close>

datatype transition_result =
    is_Transitioned: Transitioned order
  | OrderStateTransitionError (fromState: string) (toState: string) (transition_message: string)
  | OtherErrorResult (other_errorCode: string) (other_message: string)

datatype add_payment_result =
    PaymentAdded order
  | ErrorResult (errorCode: string) (error_message: string)

text \<open>
  \<^verbatim>\<open>(addPaymentToOrderResult as ErrorResult).errorCode\<close>: an order has no such
  property.
\<close>

fun errorCodeOf :: "add_payment_result \<Rightarrow> string option" where
  "errorCodeOf (PaymentAdded _) = None"
| "errorCodeOf (ErrorResult ec _) = Some ec"

record stripe_handler_config =
  stripeClient :: string
  redirectUrl :: string
  downpaymentLabel :: "string option"
  prorationLabel :: "string option"

record collaborators =
  getActiveOrder :: "request_context \<Rightarrow> order option"
  hydrate :: "request_context \<Rightarrow> order \<Rightarrow> order"
  findAll :: "request_context \<Rightarrow> payment_method list"
  sessionsCreate :: "string \<Rightarrow> session_params \<Rightarrow> checkout_session"
  getChannelFromToken :: "string \<Rightarrow> channel"
  findOneByCode :: "request_context \<Rightarrow> string \<Rightarrow> order option"
  transitionToState :: "request_context \<Rightarrow> nat \<Rightarrow> string \<Rightarrow> transition_result"
  addPaymentToOrder :: "request_context \<Rightarrow> nat \<Rightarrow> payment_input \<Rightarrow> add_payment_result"
  subscriptionsUpdate :: "string \<Rightarrow> string \<Rightarrow> int \<Rightarrow> error option"
  jsonStringify :: "checkout_session \<Rightarrow> string"
  isoDate :: "int \<Rightarrow> string"

datatype effect =
    SessionsCreate string session_params
  | TransitionToState request_context nat string
  | AddPaymentToOrder request_context nat payment_input
  | SubscriptionsUpdate string string int
  | CreateHistoryEntryForOrder request_context nat string
  | LoggerInfo string
  | LoggerWarn string
  | LoggerError string

type_synonym 'a action = "effect list \<times> (error + 'a)"

subsection \<open>Sequencing, throwing and catching\<close>

definition succeed :: "'a \<Rightarrow> 'a action" where
  "succeed x = ([], Inr x)"

definition throw :: "error \<Rightarrow> 'a action" where
  "throw e = ([], Inl e)"

definition perform :: "effect \<Rightarrow> unit action" where
  "perform eff = ([eff], Inr ())"

definition and_then :: "'a action \<Rightarrow> ('a \<Rightarrow> 'b action) \<Rightarrow> 'b action" where
  "and_then m f =
     (case m of
        (t, Inl e) \<Rightarrow> (t, Inl e)
      | (t, Inr x) \<Rightarrow> (case f x of (t', r) \<Rightarrow> (t @ t', r)))"

definition try_catch :: "'a action \<Rightarrow> (error \<Rightarrow> 'a action) \<Rightarrow> 'a action" where
  "try_catch m h =
     (case m of
        (t, Inl e) \<Rightarrow> (case h e of (t', r) \<Rightarrow> (t @ t', r))
      | (t, Inr x) \<Rightarrow> (t, Inr x))"

subsection \<open>JavaScript truthiness\<close>

text \<open>
  \<^verbatim>\<open>!s\<close> holds of a string that is \<^verbatim>\<open>undefined\<close> or empty, \<^verbatim>\<open>!n\<close> of a
  number that is \<^verbatim>\<open>undefined\<close> or zero, \<^verbatim>\<open>!xs?.length\<close> of an array that is
  \<^verbatim>\<open>undefined\<close> or empty. Each function returns the value when it is truthy.
\<close>

fun truthy_string :: "string option \<Rightarrow> string option" where
  "truthy_string None = None"
| "truthy_string (Some s) = (if s = [] then None else Some s)"

fun truthy_number :: "int option \<Rightarrow> int option" where
  "truthy_number None = None"
| "truthy_number (Some n) = (if n = 0 then None else Some n)"

fun has_length :: "'a list option \<Rightarrow> bool" where
  "has_length None = False"
| "has_length (Some xs) = (xs \<noteq> [])"

subsection \<open>Private helpers of the service\<close>

definition getPaymentMethodByCode ::
  "collaborators \<Rightarrow> request_context \<Rightarrow> string \<Rightarrow> payment_method option" where
  "getPaymentMethodByCode env ctx paymentMethodCode =
     find (\<lambda>pm. pm_code pm = paymentMethodCode) (findAll env ctx)"

definition createContext :: "collaborators \<Rightarrow> string \<Rightarrow> request_context" where
  "createContext env channelToken =
     \<lparr>apiType = ''admin'', isAuthorized = True, authorizedAsOwnerOnly = False,
      channel = getChannelFromToken env channelToken, languageCode = ''en''\<rparr>"

text \<open>
  \<^verbatim>\<open>handler.args.find((arg) => arg.name === n)?.value\<close> is the value of the first
  argument named \<open>n\<close>: \<open>map_of\<close> on the list of (name, value) pairs. The Stripe client
  is represented by the API key it was built with.
\<close>

definition getStripeHandler ::
  "collaborators \<Rightarrow> request_context \<Rightarrow> string \<Rightarrow> stripe_handler_config action" where
  "getStripeHandler env ctx paymentMethodCode =
     (case getPaymentMethodByCode env ctx paymentMethodCode of
        None \<Rightarrow>
          throw (UserInputError (''No paymentMethod found with code '' @ paymentMethodCode))
      | Some paymentMethod \<Rightarrow>
          (case (truthy_string (map_of (handler_args paymentMethod) ''apiKey''),
                 truthy_string (map_of (handler_args paymentMethod) ''redirectUrl'')) of
             (Some apiKey, Some redirect) \<Rightarrow>
               succeed
                 \<lparr>stripeClient = apiKey, redirectUrl = redirect,
                  downpaymentLabel = map_of (handler_args paymentMethod) ''downpaymentLabel'',
                  prorationLabel = map_of (handler_args paymentMethod) ''prorationLabel''\<rparr>
           | _ \<Rightarrow>
               and_then
                 (perform (LoggerWarn
                    (''CreatePaymentIntent failed, because no apiKey or redirect is configured for ''
                       @ pm_code paymentMethod)))
                 (\<lambda>_. throw (UserInputError
                    (''Paymentmethod '' @ pm_code paymentMethod
                       @ '' has no apiKey or redirectUrl configured'')))))"

definition logOrderHistory :: "request_context \<Rightarrow> nat \<Rightarrow> string \<Rightarrow> unit action" where
  "logOrderHistory ctx orderId note = perform (CreateHistoryEntryForOrder ctx orderId note)"

subsection \<open>createStripeSubscriptionPaymentLink\<close>

definition checkoutParams :: "request_context \<Rightarrow> order \<Rightarrow> customer \<Rightarrow> string \<Rightarrow> string \<Rightarrow> session_params" where
  "checkoutParams ctx ord cust paymentMethodCode redirect =
     \<lparr>mode = ''subscription'',
      session_locale = ''en'',
      customer_email = emailAddress cust,
      line_items =
        [(''price_1MChevDzZuaioTddfCBc7ERg'', 1),
         (''price_1MCheGDzZuaioTddPkGRcVkf'', 1),
         (''price_1ME9feDzZuaioTddc9Oe1rpr'', 1)],
      trial_period_days = 20,
      session_metadata =
        \<lparr>md_orderCode = Some (code ord),
         md_channelToken = Some (token (channel ctx)),
         md_paymentMethodCode = Some paymentMethodCode,
         md_endDate = None\<rparr>,
      success_url = redirect @ ''?session_id={CHECKOUT_SESSION_ID}'',
      cancel_url = redirect @ ''?session_id={CHECKOUT_SESSION_ID}''\<rparr>"

text \<open>
  \<^verbatim>\<open>stripeClient.checkout.sessions.create\<close>: the call is an effect, the session
  the provider answers with is the result.
\<close>

definition createCheckoutSession ::
  "collaborators \<Rightarrow> string \<Rightarrow> session_params \<Rightarrow> checkout_session action" where
  "createCheckoutSession env client params =
     ([SessionsCreate client params], Inr (sessionsCreate env client params))"

definition createStripeSubscriptionPaymentLink ::
  "collaborators \<Rightarrow> request_context \<Rightarrow> string \<Rightarrow> string action" where
  "createStripeSubscriptionPaymentLink env ctx paymentMethodCode =
     (case getActiveOrder env ctx of
        None \<Rightarrow> throw (UserInputError ''No active order for session'')
      | Some activeOrder \<Rightarrow>
          (let ord = hydrate env ctx activeOrder in
           if \<not> has_length (lines ord) then
             throw (UserInputError ''Cannot create payment intent for empty order'')
           else
             (case customer ord of
                None \<Rightarrow>
                  throw (UserInputError
                    ''Cannot create payment intent for order without customer'')
              | Some cust \<Rightarrow>
                  if \<not> has_length (shippingLines ord) then
                    throw (UserInputError
                      ''Cannot create payment intent for order without shippingMethod'')
                  else
                    and_then (getStripeHandler env ctx paymentMethodCode) (\<lambda>h.
                    and_then
                      (createCheckoutSession env (stripeClient h)
                         (checkoutParams ctx ord cust paymentMethodCode (redirectUrl h)))
                      (\<lambda>session.
                         (case truthy_string (url session) of
                            None \<Rightarrow>
                              and_then
                                (perform (LoggerError
                                   (''Failed to create payment link '' @ jsonStringify env session)))
                                (\<lambda>_. throw (Error ''Failed to create payment link''))
                          | Some u \<Rightarrow> succeed u))))))"

subsection \<open>handlePaymentCompleteEvent\<close>

definition requestTransition ::
  "collaborators \<Rightarrow> request_context \<Rightarrow> nat \<Rightarrow> string \<Rightarrow> transition_result action" where
  "requestTransition env ctx orderId st =
     ([TransitionToState ctx orderId st], Inr (transitionToState env ctx orderId st))"

definition requestPayment ::
  "collaborators \<Rightarrow> request_context \<Rightarrow> nat \<Rightarrow> payment_input \<Rightarrow> add_payment_result action" where
  "requestPayment env ctx orderId input =
     ([AddPaymentToOrder ctx orderId input], Inr (addPaymentToOrder env ctx orderId input))"

text \<open>
  \<^verbatim>\<open>stripeClient.subscriptions.update(subscriptionId, {cancel_at: endDate})\<close>: the
  call is an effect whether or not the provider accepts it; a rejection is thrown.
\<close>

definition updateSubscription ::
  "collaborators \<Rightarrow> string \<Rightarrow> string \<Rightarrow> int \<Rightarrow> unit action" where
  "updateSubscription env client subscriptionId endDate =
     ([SubscriptionsUpdate client subscriptionId endDate],
      (case subscriptionsUpdate env client subscriptionId endDate of
         None \<Rightarrow> Inr ()
       | Some e \<Rightarrow> Inl e))"

text \<open>
  \<^verbatim>\<open>new Date(endDate * 1000).toISOString().substr(0, 10)\<close>. A time value beyond
  8.64e15 milliseconds from the epoch is no date, and \<^verbatim>\<open>toISOString\<close> throws a
  RangeError on it; the text of a valid date is the runtime's (\<open>isoDate\<close>).
\<close>

definition toISODate :: "collaborators \<Rightarrow> int \<Rightarrow> string action" where
  "toISODate env endDate =
     (if \<bar>endDate * 1000\<bar> \<le> 8640000000000000 then succeed (isoDate env endDate)
      else throw (RangeError ''Invalid time value''))"

text \<open>The body of the \<^verbatim>\<open>try\<close> block (lines 210 to 224 of the source).\<close>

definition updateEndDate ::
  "collaborators \<Rightarrow> request_context \<Rightarrow> order \<Rightarrow> string \<Rightarrow> string \<Rightarrow> int \<Rightarrow> unit action" where
  "updateEndDate env ctx ord paymentMethodCode subscriptionId endDate =
     and_then (getStripeHandler env ctx paymentMethodCode) (\<lambda>h.
     and_then (updateSubscription env (stripeClient h) subscriptionId endDate) (\<lambda>_.
     and_then (toISODate env endDate) (\<lambda>d.
     logOrderHistory ctx (order_id ord) (''Updated subscription to end at '' @ d))))"

definition handlePaymentCompleteEvent ::
  "collaborators \<Rightarrow> incoming_checkout_webhook \<Rightarrow> unit action" where
  "handlePaymentCompleteEvent env webhook =
     (let eventData = data_object webhook in
      case truthy_string (md_orderCode (metadata eventData)) of
        None \<Rightarrow>
          throw (Error
            ''Incoming webhook is missing metadata.orderCode, cannot process this event'')
      | Some orderCode \<Rightarrow>
      (case truthy_string (md_channelToken (metadata eventData)) of
        None \<Rightarrow>
          throw (Error
            ''Incoming webhook is missing metadata.channelToken, cannot process this event'')
      | Some channelToken \<Rightarrow>
      (let ctx = createContext env channelToken in
       case findOneByCode env ctx orderCode of
        None \<Rightarrow> throw (Error (''Cannot find order with code '' @ orderCode))
      | Some ord \<Rightarrow>
      (case truthy_string (md_paymentMethodCode (metadata eventData)) of
        None \<Rightarrow>
          throw (Error
            ''Incoming webhook is missing metadata.paymentMethodCode, cannot process this event'')
      | Some paymentMethodCode \<Rightarrow>
          if status eventData \<noteq> ''complete'' then
            perform (LoggerInfo
              (''Received incoming webhook with status '' @ status eventData
                 @ '', not processing this event.''))
          else
            and_then
              (if state ord \<noteq> ''ArrangingPayment'' then
                 and_then (requestTransition env ctx (order_id ord) ''ArrangingPayment'')
                   (\<lambda>transitionToStateResult.
                      case transitionToStateResult of
                        OrderStateTransitionError from to msg \<Rightarrow>
                          throw (Error
                            (''Error transitioning order '' @ code ord @ '' from '' @ from
                               @ '' to '' @ to @ '': '' @ msg))
                      | Transitioned _ \<Rightarrow> succeed ()
                      | OtherErrorResult _ _ \<Rightarrow> succeed ())
               else succeed ())
            (\<lambda>_.
            and_then
              (requestPayment env ctx (order_id ord)
                 \<lparr>input_method = paymentMethodCode,
                  metadata_subscriptionId = subscription eventData\<rparr>)
            (\<lambda>addPaymentToOrderResult.
            and_then
              (case truthy_string (errorCodeOf addPaymentToOrderResult) of
                 Some _ \<Rightarrow>
                   throw (Error
                     (''Error adding payment to order '' @ code ord @ '': ''
                        @ error_message addPaymentToOrderResult))
               | None \<Rightarrow> succeed ())
            (\<lambda>_.
            and_then
              (perform (LoggerInfo
                 (''Successfully settled payment for order '' @ code ord
                    @ '' for channel '' @ channelToken)))
            (\<lambda>_.
            (let subscriptionId = subscription eventData in
             case truthy_number (md_endDate (metadata eventData)) of
               None \<Rightarrow>
                 and_then
                   (logOrderHistory ctx (order_id ord)
                      (''!! Failed to set subscription end date for subscription ''
                         @ subscriptionId @ ''!''))
                   (\<lambda>_. perform (LoggerError
                      (''Incoming webhook is missing metadata.endDate, failed to set end date for subscription ''
                         @ subscriptionId)))
             | Some endDate \<Rightarrow>
                 try_catch
                   (updateEndDate env ctx ord paymentMethodCode subscriptionId endDate)
                   (\<lambda>e.
                      and_then
                        (logOrderHistory ctx (order_id ord)
                           (''!! Failed to set subscription end date for subscription ''
                              @ subscriptionId @ '': '' @ message e))
                        (\<lambda>_. throw e)))))))))))"

subsection \<open>A sample host\<close>

text \<open>
  One concrete set of collaborators, on which the theorems below are instantiated: a
  shop with one channel, one order and one configured payment method, whose host and
  provider accept every request.
\<close>

definition sample_ctx :: request_context where
  "sample_ctx =
     \<lparr>apiType = ''shop'', isAuthorized = True, authorizedAsOwnerOnly = True,
      channel = \<lparr>token = ''tok''\<rparr>, languageCode = ''en''\<rparr>"

definition sample_order :: order where
  "sample_order =
     \<lparr>order_id = 1, code = ''ORD1'', state = ''AddingItems'', lines = Some [1],
      customer = Some \<lparr>emailAddress = ''a@b.c''\<rparr>, shippingLines = Some [1]\<rparr>"

definition sample_method :: payment_method where
  "sample_method =
     \<lparr>pm_code = ''stripe'',
      handler_args = [(''apiKey'', ''sk_test''), (''redirectUrl'', ''https://shop/back'')]\<rparr>"

definition sample_host :: collaborators where
  "sample_host =
     \<lparr>getActiveOrder = (\<lambda>_. Some sample_order),
      hydrate = (\<lambda>_ ord. ord),
      findAll = (\<lambda>_. [sample_method]),
      sessionsCreate = (\<lambda>_ _. \<lparr>url = Some ''https://pay/1''\<rparr>),
      getChannelFromToken = (\<lambda>t. \<lparr>token = t\<rparr>),
      findOneByCode = (\<lambda>_ c. if c = ''ORD1'' then Some sample_order else None),
      transitionToState = (\<lambda>_ _ st. Transitioned (sample_order\<lparr>state := st\<rparr>)),
      addPaymentToOrder = (\<lambda>_ _ _. PaymentAdded sample_order),
      subscriptionsUpdate = (\<lambda>_ _ _. None),
      jsonStringify = (\<lambda>_. ''{}''),
      isoDate = (\<lambda>_. ''2023-11-14'')\<rparr>"

definition sample_webhook :: incoming_checkout_webhook where
  "sample_webhook =
     \<lparr>data_object =
        \<lparr>metadata =
           \<lparr>md_orderCode = Some ''ORD1'', md_channelToken = Some ''tok'',
            md_paymentMethodCode = Some ''stripe'', md_endDate = Some 1700000000\<rparr>,
         status = ''complete'',
         subscription = ''sub_1''\<rparr>\<rparr>"

text \<open>The context \<open>createContext\<close> builds for the sample channel.\<close>

definition admin_ctx :: request_context where
  "admin_ctx =
     \<lparr>apiType = ''admin'', isAuthorized = True, authorizedAsOwnerOnly = False,
      channel = \<lparr>token = ''tok''\<rparr>, languageCode = ''en''\<rparr>"

text \<open>Variations of the sample: hosts that answer differently, other events.\<close>

definition idle_host :: collaborators where
  "idle_host = sample_host\<lparr>getActiveOrder := \<lambda>_. None\<rparr>"

definition anonymous_host :: collaborators where
  "anonymous_host = sample_host\<lparr>hydrate := \<lambda>_ ord. ord\<lparr>customer := None\<rparr>\<rparr>"

definition declining_host :: collaborators where
  "declining_host =
     sample_host\<lparr>addPaymentToOrder :=
       \<lambda>_ _ _. ErrorResult ''PAYMENT_DECLINED_ERROR'' ''The payment was declined''\<rparr>"

definition refusing_host :: collaborators where
  "refusing_host =
     sample_host
       \<lparr>transitionToState :=
          \<lambda>_ _ _. OtherErrorResult ''ORDER_STATE_TRANSITION_ERROR'' ''refused'',
        addPaymentToOrder :=
          \<lambda>_ _ _. ErrorResult ''ORDER_PAYMENT_STATE_ERROR''
                    ''A Payment may only be added when Order is in ArrangingPayment state''\<rparr>"

definition unconfigured_host :: collaborators where
  "unconfigured_host =
     sample_host\<lparr>findAll := \<lambda>_. [\<lparr>pm_code = ''stripe'', handler_args = []\<rparr>]\<rparr>"

definition open_webhook :: incoming_checkout_webhook where
  "open_webhook =
     \<lparr>data_object =
        \<lparr>metadata =
           \<lparr>md_orderCode = Some ''ORD1'', md_channelToken = Some ''tok'',
            md_paymentMethodCode = Some ''stripe'', md_endDate = Some 1700000000\<rparr>,
         status = ''open'',
         subscription = ''sub_1''\<rparr>\<rparr>"

definition unknown_order_webhook :: incoming_checkout_webhook where
  "unknown_order_webhook =
     \<lparr>data_object =
        \<lparr>metadata =
           \<lparr>md_orderCode = Some ''ORD2'', md_channelToken = Some ''tok'',
            md_paymentMethodCode = Some ''stripe'', md_endDate = Some 1700000000\<rparr>,
         status = ''complete'',
         subscription = ''sub_1''\<rparr>\<rparr>"

definition undated_webhook :: incoming_checkout_webhook where
  "undated_webhook =
     \<lparr>data_object =
        \<lparr>metadata =
           \<lparr>md_orderCode = Some ''ORD1'', md_channelToken = Some ''tok'',
            md_paymentMethodCode = Some ''stripe'', md_endDate = None\<rparr>,
         status = ''complete'',
         subscription = ''sub_1''\<rparr>\<rparr>"

section \<open>The popularity plugin\<close>

subsection \<open>The controller\<close>

text \<open>
  \<^verbatim>\<open>OrderByPopularityController\<close> is under the sources; the \<^verbatim>\<open>SortService\<close>
  it is constructed with is not. The service is a parameter of the controller: a
  record of the one method the controller calls, acting on a state \<open>'s\<close>.
\<close>

record 's sort_service =
  addScoreCalculatingJobToQueue :: "string \<Rightarrow> request_context \<Rightarrow> 's \<Rightarrow> 's"

text \<open>
  The handler of \<^verbatim>\<open>GET /order-by-popularity/calculate-scores/:mychanneltoken\<close>.
\<close>

definition calculateScores ::
  "'s sort_service \<Rightarrow> request_context \<Rightarrow> string \<Rightarrow> 's \<Rightarrow> 's" where
  "calculateScores sortService ctx mychanneltoken =
     addScoreCalculatingJobToQueue sortService mychanneltoken ctx"

subsection \<open>The scoring service\<close>

text \<open>
  Modelled from the spec: \<^verbatim>\<open>sort.service.ts\<close> (the class \<^verbatim>\<open>SortService\<close>) is
  missing from the sources, and with it the data it reads and writes. The spec says
  that the service "queries historical settled orders per channel, computes a score
  per product, persists it to a custom field, then walks the collection tree bottom-up
  summing child scores into parent collections, scheduled via a job queue". An order
  is what the query needs of it: its channel, whether it is settled, and its lines as
  pairs of a product and a quantity.
\<close>

record sale =
  sale_channel :: string
  settled :: bool
  sale_lines :: "(nat \<times> nat) list"

text \<open>
  Modelled from the spec: the collection tree of the missing service. A collection has
  an identifier, the products of its variants, the custom field
  \<^verbatim>\<open>popularityScore\<close> and its child collections.
\<close>

datatype collection =
  Collection (collection_id: nat) (collection_products: "nat list")
    (popularityScore: nat) (children: "collection list")

text \<open>
  Modelled from the spec: a job of the missing service's queue, holding the arguments of
  \<^verbatim>\<open>addScoreCalculatingJobToQueue\<close>.
\<close>

record job =
  job_channelToken :: string
  job_ctx :: request_context

text \<open>
  Modelled from the spec: the state the missing service works on. The orders, the
  products and the collection tree of each channel are the host's; the custom field
  \<^verbatim>\<open>popularityScore\<close> of a product is \<open>productPopularityScore\<close>, that of a
  collection is in the tree; the queue holds the jobs not yet run.
\<close>

record shop =
  orders :: "sale list"
  channelProducts :: "string \<Rightarrow> nat list"
  productPopularityScore :: "nat \<Rightarrow> nat"
  channelCollections :: "string \<Rightarrow> collection"
  jobQueue :: "job list"

text \<open>
  Modelled from the spec: the missing query for the "historical settled orders per
  channel".
\<close>

definition settledOrders :: "string \<Rightarrow> sale list \<Rightarrow> sale list" where
  "settledOrders tok os = filter (\<lambda>sl. sale_channel sl = tok \<and> settled sl) os"

text \<open>
  Modelled from the spec: the "order volume" of a product, missing with the service:
  the quantity of the product over all lines of the given orders.
\<close>

definition volume :: "sale list \<Rightarrow> nat \<Rightarrow> nat" where
  "volume os p =
     sum_list (map (\<lambda>sl. sum_list (map snd (filter (\<lambda>l. fst l = p) (sale_lines sl)))) os)"

text \<open>
  Modelled from the spec: the largest volume among the products of the channel, for the
  missing score computation.
\<close>

definition maxVolume :: "sale list \<Rightarrow> nat list \<Rightarrow> nat" where
  "maxVolume os ps = fold max (map (volume os) ps) 0"

text \<open>
  Modelled from the spec: the missing computation of "a score per product" from order
  volume. The spec gives no formula. The scale is the one the expectations of
  \<^verbatim>\<open>e2e.spec.ts\<close> fix (1000 for the best-selling product with 10 units, 800 for a
  product with 8 units, 0 for a product never ordered): the volume relative to the
  largest volume, in thousandths, rounded down.
\<close>

definition score :: "sale list \<Rightarrow> nat list \<Rightarrow> nat \<Rightarrow> nat" where
  "score os ps p =
     (if maxVolume os ps = 0 then 0 else volume os p * 1000 div maxVolume os ps)"

text \<open>
  Modelled from the spec: the missing write of one product's custom field
  \<^verbatim>\<open>popularityScore\<close>.
\<close>

definition saveScore :: "nat \<Rightarrow> nat \<Rightarrow> (nat \<Rightarrow> nat) \<Rightarrow> (nat \<Rightarrow> nat)" where
  "saveScore p v stored = stored(p := v)"

text \<open>
  Modelled from the spec: the missing loop that "computes a score per product, persists
  it to a custom field", over the products of the channel.
\<close>

definition persistScores ::
  "sale list \<Rightarrow> nat list \<Rightarrow> (nat \<Rightarrow> nat) \<Rightarrow> (nat \<Rightarrow> nat)" where
  "persistScores os ps stored = fold (\<lambda>p. saveScore p (score os ps p)) ps stored"

text \<open>
  Modelled from the spec: what a collection's own products contribute to its score in
  the missing service; each product counts once, however many of its variants the
  collection holds.
\<close>

definition ownScore :: "(nat \<Rightarrow> nat) \<Rightarrow> collection \<Rightarrow> nat" where
  "ownScore f c = sum_list (map f (remdups (collection_products c)))"

text \<open>
  Modelled from the spec: the missing walk of "the collection tree bottom-up summing
  child scores into parent collections". The children are scored first; the score of a
  collection is that of its own products plus the scores of its children.
\<close>

fun aggregate :: "(nat \<Rightarrow> nat) \<Rightarrow> collection \<Rightarrow> collection" where
  "aggregate f (Collection i ps sc cs) =
     (let cs' = map (aggregate f) cs
      in Collection i ps
           (sum_list (map f (remdups ps)) + sum_list (map popularityScore cs')) cs')"

text \<open>A collection and all collections below it.\<close>

fun subcollections :: "collection \<Rightarrow> collection list" where
  "subcollections (Collection i ps sc cs) =
     Collection i ps sc cs # concat (map subcollections cs)"

text \<open>
  Modelled from the spec: the missing score-calculation job, run for the channel named
  by the job's token: product scores from the channel's settled orders, then the
  channel's collection tree.
\<close>

definition processJob :: "job \<Rightarrow> shop \<Rightarrow> shop" where
  "processJob j s =
     (let tok = job_channelToken j;
          scores = persistScores (settledOrders tok (orders s)) (channelProducts s tok)
                     (productPopularityScore s)
      in s\<lparr>productPopularityScore := scores,
           channelCollections :=
             (channelCollections s)(tok := aggregate scores (channelCollections s tok))\<rparr>)"

text \<open>
  Modelled from the spec: the missing \<^verbatim>\<open>SortService.addScoreCalculatingJobToQueue\<close>,
  which schedules the computation "via a job queue": it appends a job and does nothing
  else.
\<close>

definition queueService :: "shop sort_service" where
  "queueService =
     \<lparr>addScoreCalculatingJobToQueue =
        (\<lambda>tok ctx s. s\<lparr>jobQueue := jobQueue s @ [\<lparr>job_channelToken = tok, job_ctx = ctx\<rparr>]\<rparr>)\<rparr>"

text \<open>
  Modelled from the spec: the worker of the host's job queue, missing from the sources:
  it runs the queued jobs in order and leaves the queue empty.
\<close>

definition runWorker :: "shop \<Rightarrow> shop" where
  "runWorker s = fold processJob (jobQueue s) (s\<lparr>jobQueue := []\<rparr>)"

subsection \<open>What can happen to a shop\<close>




subsection \<open>The scenario of the end-to-end test\<close>

text \<open>
  The shop \<^verbatim>\<open>e2e.spec.ts\<close> builds before it calls the route: five settled orders
  of two units of a variant of product 1, one settled order of two units of each of
  the four variants of product 3, no order of product 2; the root collection 1 with
  the collections 2 and 3 (holding product 1), 4 (product 2) and 5 (product 3) below
  it. No score has been computed yet.
\<close>

definition e2e_sale :: "(nat \<times> nat) list \<Rightarrow> sale" where
  "e2e_sale ls = \<lparr>sale_channel = ''e2e-default-channel'', settled = True, sale_lines = ls\<rparr>"

definition e2e_tree :: collection where
  "e2e_tree =
     Collection 1 [] 0
       [Collection 2 [1] 0 [], Collection 3 [1] 0 [], Collection 4 [2] 0 [],
        Collection 5 [3] 0 []]"

definition e2e_shop :: shop where
  "e2e_shop =
     \<lparr>orders =
        [e2e_sale [(1, 2)], e2e_sale [(1, 2)], e2e_sale [(1, 2)], e2e_sale [(1, 2)],
         e2e_sale [(1, 2)], e2e_sale [(3, 2), (3, 2), (3, 2), (3, 2)]],
      channelProducts = (\<lambda>tok. if tok = ''e2e-default-channel'' then [1, 2, 3] else []),
      productPopularityScore = (\<lambda>_. 0),
      channelCollections = (\<lambda>_. e2e_tree),
      jobQueue = []\<rparr>"

definition e2e_job :: job where
  "e2e_job = \<lparr>job_channelToken = ''e2e-default-channel'', job_ctx = sample_ctx\<rparr>"

text \<open>The shop after the test's call of the route and the worker's run.\<close>

definition e2e_scored :: shop where
  "e2e_scored =
     runWorker (calculateScores queueService sample_ctx ''e2e-default-channel'' e2e_shop)"

text \<open>A later order of twenty units of product 2, and an order of another channel.\<close>

definition late_sale :: sale where
  "late_sale = e2e_sale [(2, 20)]"

definition other_sale :: sale where
  "other_sale = \<lparr>sale_channel = ''other-channel'', settled = True, sale_lines = [(2, 7)]\<rparr>"

section \<open>Properties of the Stripe subscription service\<close>

subsection \<open>Evaluating actions\<close>

lemma and_then_throw [simp]: "and_then (t, Inl e) f = (t, Inl e)"
  by (simp add: and_then_def)

lemma and_then_value [simp]: "and_then (t, Inr x) f = (t @ fst (f x), snd (f x))"
  by (simp add: and_then_def split: prod.splits)

lemma try_catch_throw [simp]: "try_catch (t, Inl e) h = (t @ fst (h e), snd (h e))"
  by (simp add: try_catch_def split: prod.splits)

lemma try_catch_value [simp]: "try_catch (t, Inr x) h = (t, Inr x)"
  by (simp add: try_catch_def)

lemmas action_defs = succeed_def throw_def perform_def logOrderHistory_def
  requestTransition_def requestPayment_def

lemmas sample_defs = sample_host_def sample_order_def sample_method_def sample_ctx_def
  sample_webhook_def admin_ctx_def createContext_def idle_host_def anonymous_host_def
  refusing_host_def declining_host_def unconfigured_host_def open_webhook_def unknown_order_webhook_def
  undated_webhook_def

subsection \<open>The payment link\<close>

text \<open>
  C8. \<^verbatim>\<open>createStripeSubscriptionPaymentLink\<close> throws a UserInputError when the
  session has no active order, or when the hydrated active order has no lines, no
  customer or no shipping lines. It has then caused no effect at all: no checkout
  session was requested from the provider, and no service that changes an order was
  called.
\<close>

theorem createStripeSubscriptionPaymentLink_rejects_unready_order:
  assumes "getActiveOrder env ctx = None \<or>
           (\<exists>activeOrder. getActiveOrder env ctx = Some activeOrder \<and>
              (\<not> has_length (lines (hydrate env ctx activeOrder)) \<or>
               customer (hydrate env ctx activeOrder) = None \<or>
               \<not> has_length (shippingLines (hydrate env ctx activeOrder))))"
  shows "\<exists>m. createStripeSubscriptionPaymentLink env ctx paymentMethodCode
               = ([], Inl (UserInputError m))"
  using assms
  by (auto simp: createStripeSubscriptionPaymentLink_def action_defs Let_def
           split: option.splits)

theorem createStripeSubscriptionPaymentLink_rejects_unready_order_witness:
  "getActiveOrder idle_host sample_ctx = None \<and>
   (\<exists>m. createStripeSubscriptionPaymentLink idle_host sample_ctx ''stripe''
          = ([], Inl (UserInputError m))) \<and>
   getActiveOrder anonymous_host sample_ctx = Some sample_order \<and>
   customer (hydrate anonymous_host sample_ctx sample_order) = None \<and>
   (\<exists>m. createStripeSubscriptionPaymentLink anonymous_host sample_ctx ''stripe''
          = ([], Inl (UserInputError m)))"
proof -
  have idle: "getActiveOrder idle_host sample_ctx = None"
    by (simp add: sample_defs)
  have active: "getActiveOrder anonymous_host sample_ctx = Some sample_order"
    by (simp add: anonymous_host_def sample_host_def)
  have anonymous: "customer (hydrate anonymous_host sample_ctx sample_order) = None"
    by (simp add: anonymous_host_def sample_host_def)
  from idle have "\<exists>m. createStripeSubscriptionPaymentLink idle_host sample_ctx ''stripe''
                       = ([], Inl (UserInputError m))"
    by (intro createStripeSubscriptionPaymentLink_rejects_unready_order) simp
  moreover from active anonymous
  have "\<exists>m. createStripeSubscriptionPaymentLink anonymous_host sample_ctx ''stripe''
              = ([], Inl (UserInputError m))"
    by (intro createStripeSubscriptionPaymentLink_rejects_unready_order) simp
  ultimately show ?thesis using idle active anonymous by simp
qed

text \<open>
  C6. When the session has an active order that, hydrated, has at least one line, a
  customer and a shipping line, and the payment method of the given code has a
  non-empty \<^verbatim>\<open>apiKey\<close> and \<^verbatim>\<open>redirectUrl\<close>, the method requests exactly one
  checkout session from the provider, with that key and the parameters built from the
  order, and returns the session's URL; when the session has no URL (none, or the empty
  string) it logs an error and throws.
\<close>

theorem createStripeSubscriptionPaymentLink_returns_session_url:
  assumes "getActiveOrder env ctx = Some activeOrder"
      and "ord = hydrate env ctx activeOrder"
      and "has_length (lines ord)"
      and "customer ord = Some cust"
      and "has_length (shippingLines ord)"
      and "getPaymentMethodByCode env ctx paymentMethodCode = Some pm"
      and "truthy_string (map_of (handler_args pm) ''apiKey'') = Some apiKey"
      and "truthy_string (map_of (handler_args pm) ''redirectUrl'') = Some redirect"
      and "params = checkoutParams ctx ord cust paymentMethodCode redirect"
      and "session = sessionsCreate env apiKey params"
  shows "createStripeSubscriptionPaymentLink env ctx paymentMethodCode =
         (case truthy_string (url session) of
            Some u \<Rightarrow> ([SessionsCreate apiKey params], Inr u)
          | None \<Rightarrow>
              ([SessionsCreate apiKey params,
                LoggerError (''Failed to create payment link '' @ jsonStringify env session)],
               Inl (Error ''Failed to create payment link'')))"
  using assms
  by (simp add: createStripeSubscriptionPaymentLink_def getStripeHandler_def
      createCheckoutSession_def action_defs Let_def split: option.splits)

theorem createStripeSubscriptionPaymentLink_returns_session_url_witness:
  "createStripeSubscriptionPaymentLink sample_host sample_ctx ''stripe'' =
     ([SessionsCreate ''sk_test''
         (checkoutParams sample_ctx sample_order \<lparr>emailAddress = ''a@b.c''\<rparr> ''stripe''
            ''https://shop/back'')],
      Inr ''https://pay/1'')"
proof -
  have active: "getActiveOrder sample_host sample_ctx = Some sample_order"
    by (simp add: sample_host_def)
  have hydrated: "sample_order = hydrate sample_host sample_ctx sample_order"
    by (simp add: sample_host_def)
  have ready: "has_length (lines sample_order)"
      "customer sample_order = Some \<lparr>emailAddress = ''a@b.c''\<rparr>"
      "has_length (shippingLines sample_order)"
    by (simp_all add: sample_order_def)
  have found: "getPaymentMethodByCode sample_host sample_ctx ''stripe'' = Some sample_method"
    by (simp add: getPaymentMethodByCode_def sample_host_def sample_method_def)
  have configured:
      "truthy_string (map_of (handler_args sample_method) ''apiKey'') = Some ''sk_test''"
      "truthy_string (map_of (handler_args sample_method) ''redirectUrl'')
         = Some ''https://shop/back''"
    by (simp_all add: sample_method_def)
  have answer: "url (sessionsCreate sample_host ''sk_test''
                  (checkoutParams sample_ctx sample_order \<lparr>emailAddress = ''a@b.c''\<rparr>
                     ''stripe'' ''https://shop/back'')) = Some ''https://pay/1''"
    by (simp add: sample_host_def)
  show ?thesis
    using createStripeSubscriptionPaymentLink_returns_session_url
            [OF active hydrated ready found configured refl refl] answer
    by simp
qed

subsection \<open>The webhook handler\<close>

lemma updateEndDate_cases:
  "updateEndDate env ctx ord pmc sub endDate =
     (case getStripeHandler env ctx pmc of
        (t, Inl e) \<Rightarrow> (t, Inl e)
      | (t, Inr h) \<Rightarrow>
          (case subscriptionsUpdate env (stripeClient h) sub endDate of
             Some e \<Rightarrow> (t @ [SubscriptionsUpdate (stripeClient h) sub endDate], Inl e)
           | None \<Rightarrow>
               if \<bar>endDate * 1000\<bar> \<le> 8640000000000000 then
                 (t @ [SubscriptionsUpdate (stripeClient h) sub endDate,
                       CreateHistoryEntryForOrder ctx (order_id ord)
                         (''Updated subscription to end at '' @ isoDate env endDate)],
                  Inr ())
               else
                 (t @ [SubscriptionsUpdate (stripeClient h) sub endDate],
                  Inl (RangeError ''Invalid time value''))))"
  by (cases "getStripeHandler env ctx pmc")
     (auto simp: updateEndDate_def updateSubscription_def toISODate_def action_defs
           split: sum.splits option.splits)

lemma try_catch_history:
  "\<exists>note. CreateHistoryEntryForOrder ctx (order_id ord) note
       \<in> set (fst (try_catch (updateEndDate env ctx ord pmc sub endDate)
                     (\<lambda>e. ([CreateHistoryEntryForOrder ctx (order_id ord) (f e)], Inl e))))"
  by (cases "getStripeHandler env ctx pmc")
     (auto simp: updateEndDate_cases split: sum.splits option.splits)

text \<open>
  C9. The four checks (order code, channel token, the order's existence, payment-method
  code) precede the status check. An event that passes them and whose status is not
  \<^verbatim>\<open>complete\<close> makes the handler log one line and return: no transition and no
  payment is requested. An event that fails one of them makes it throw before any
  effect, whatever its status.
\<close>

theorem handlePaymentCompleteEvent_checks_precede_status:
  assumes "md = metadata (data_object webhook)"
  shows "(\<forall>orderCode channelToken ord paymentMethodCode.
            truthy_string (md_orderCode md) = Some orderCode \<and>
            truthy_string (md_channelToken md) = Some channelToken \<and>
            findOneByCode env (createContext env channelToken) orderCode = Some ord \<and>
            truthy_string (md_paymentMethodCode md) = Some paymentMethodCode \<and>
            status (data_object webhook) \<noteq> ''complete'' \<longrightarrow>
            handlePaymentCompleteEvent env webhook =
              ([LoggerInfo (''Received incoming webhook with status ''
                  @ status (data_object webhook) @ '', not processing this event.'')], Inr ()))
       \<and> (truthy_string (md_orderCode md) = None \<or>
          truthy_string (md_channelToken md) = None \<or>
          truthy_string (md_paymentMethodCode md) = None \<or>
          (\<exists>orderCode channelToken.
             truthy_string (md_orderCode md) = Some orderCode \<and>
             truthy_string (md_channelToken md) = Some channelToken \<and>
             findOneByCode env (createContext env channelToken) orderCode = None) \<longrightarrow>
          (\<exists>m. handlePaymentCompleteEvent env webhook = ([], Inl (Error m))))"
  using assms
  by (auto simp: handlePaymentCompleteEvent_def action_defs Let_def split: option.splits)

theorem handlePaymentCompleteEvent_checks_precede_status_witness:
  "handlePaymentCompleteEvent sample_host open_webhook =
     ([LoggerInfo ''Received incoming webhook with status open, not processing this event.''],
      Inr ()) \<and>
   status (data_object unknown_order_webhook) = ''complete'' \<and>
   (\<exists>m. handlePaymentCompleteEvent sample_host unknown_order_webhook = ([], Inl (Error m)))"
proof -
  note checks = handlePaymentCompleteEvent_checks_precede_status [OF refl]
  have "truthy_string (md_orderCode (metadata (data_object open_webhook))) = Some ''ORD1'' \<and>
        truthy_string (md_channelToken (metadata (data_object open_webhook))) = Some ''tok'' \<and>
        findOneByCode sample_host (createContext sample_host ''tok'') ''ORD1''
          = Some sample_order \<and>
        truthy_string (md_paymentMethodCode (metadata (data_object open_webhook)))
          = Some ''stripe'' \<and>
        status (data_object open_webhook) \<noteq> ''complete''"
    by (simp add: open_webhook_def sample_host_def)
  with checks [of open_webhook sample_host]
  have "handlePaymentCompleteEvent sample_host open_webhook =
          ([LoggerInfo (''Received incoming webhook with status ''
              @ status (data_object open_webhook) @ '', not processing this event.'')], Inr ())"
    by blast
  then have returns: "handlePaymentCompleteEvent sample_host open_webhook =
     ([LoggerInfo ''Received incoming webhook with status open, not processing this event.''],
      Inr ())"
    by (simp add: open_webhook_def)
  have "truthy_string (md_orderCode (metadata (data_object unknown_order_webhook)))
          = Some ''ORD2'' \<and>
        truthy_string (md_channelToken (metadata (data_object unknown_order_webhook)))
          = Some ''tok'' \<and>
        findOneByCode sample_host (createContext sample_host ''tok'') ''ORD2'' = None"
    by (simp add: unknown_order_webhook_def sample_host_def)
  with checks [of unknown_order_webhook sample_host]
  have throws: "\<exists>m. handlePaymentCompleteEvent sample_host unknown_order_webhook
                      = ([], Inl (Error m))"
    by blast
  have "status (data_object unknown_order_webhook) = ''complete''"
    by (simp add: unknown_order_webhook_def)
  with returns throws show ?thesis by simp
qed


text \<open>
  C5 (amended). For a webhook event whose metadata names an order the host finds, a
  channel and a payment method, and whose status is \<^verbatim>\<open>complete\<close>, the handler
  first requests the transition of that order to \<^verbatim>\<open>ArrangingPayment\<close> when the
  order is in another state. When the order is then in that state (the host performed
  the transition, or none was needed), the handler requests a payment with the given
  method and the event's subscription id; when the host accepts the payment, it goes on
  and records an order-history entry; when the host answers the payment with an error
  result, it throws with no history entry recorded.
\<close>

theorem handlePaymentCompleteEvent_settles_when_host_accepts:
  assumes "md = metadata (data_object webhook)"
      and "truthy_string (md_orderCode md) = Some orderCode"
      and "truthy_string (md_channelToken md) = Some channelToken"
      and "ctx = createContext env channelToken"
      and "findOneByCode env ctx orderCode = Some ord"
      and "truthy_string (md_paymentMethodCode md) = Some paymentMethodCode"
      and "status (data_object webhook) = ''complete''"
      and "transition =
             (if state ord \<noteq> ''ArrangingPayment''
              then [TransitionToState ctx (order_id ord) ''ArrangingPayment''] else [])"
      and "transitioned =
             (state ord = ''ArrangingPayment'' \<or>
              is_Transitioned (transitionToState env ctx (order_id ord) ''ArrangingPayment''))"
      and "input = \<lparr>input_method = paymentMethodCode,
                     metadata_subscriptionId = subscription (data_object webhook)\<rparr>"
      and "paid =
             (truthy_string (errorCodeOf (addPaymentToOrder env ctx (order_id ord) input))
                = None)"
  shows "(\<exists>rest. fst (handlePaymentCompleteEvent env webhook) = transition @ rest)
       \<and> (transitioned \<and> paid \<longrightarrow>
            (\<exists>rest note.
               fst (handlePaymentCompleteEvent env webhook) =
                 transition @ [AddPaymentToOrder ctx (order_id ord) input] @ rest \<and>
               CreateHistoryEntryForOrder ctx (order_id ord) note \<in> set rest))
       \<and> (transitioned \<and> \<not> paid \<longrightarrow>
            (\<exists>m. handlePaymentCompleteEvent env webhook =
                   (transition @ [AddPaymentToOrder ctx (order_id ord) input],
                    Inl (Error m))))"
  using assms
    try_catch_history [of "createContext env channelToken" ord env paymentMethodCode
      "subscription (data_object webhook)"]
  by (auto simp: handlePaymentCompleteEvent_def Let_def action_defs
      split: option.splits transition_result.splits)

theorem handlePaymentCompleteEvent_settles_when_host_accepts_witness:
  "\<exists>rest note.
     fst (handlePaymentCompleteEvent sample_host sample_webhook) =
       [TransitionToState admin_ctx 1 ''ArrangingPayment'']
       @ [AddPaymentToOrder admin_ctx 1
            \<lparr>input_method = ''stripe'', metadata_subscriptionId = ''sub_1''\<rparr>] @ rest \<and>
     CreateHistoryEntryForOrder admin_ctx 1 note \<in> set rest"
proof -
  have named:
      "truthy_string (md_orderCode (metadata (data_object sample_webhook))) = Some ''ORD1''"
      "truthy_string (md_channelToken (metadata (data_object sample_webhook))) = Some ''tok''"
    by (simp_all add: sample_webhook_def)
  have ctx: "admin_ctx = createContext sample_host ''tok''"
    by (simp add: admin_ctx_def createContext_def sample_host_def)
  have found: "findOneByCode sample_host admin_ctx ''ORD1'' = Some sample_order"
    by (simp add: sample_host_def)
  have by_method:
      "truthy_string (md_paymentMethodCode (metadata (data_object sample_webhook)))
         = Some ''stripe''"
    by (simp add: sample_webhook_def)
  have is_complete: "status (data_object sample_webhook) = ''complete''"
    by (simp add: sample_webhook_def)
  have transition:
      "[TransitionToState admin_ctx 1 ''ArrangingPayment''] =
         (if state sample_order \<noteq> ''ArrangingPayment''
          then [TransitionToState admin_ctx (order_id sample_order) ''ArrangingPayment'']
          else [])"
    by (simp add: sample_order_def)
  have transitioned:
      "True = (state sample_order = ''ArrangingPayment'' \<or>
         is_Transitioned
           (transitionToState sample_host admin_ctx (order_id sample_order)
              ''ArrangingPayment''))"
    by (simp add: sample_host_def)
  have input:
      "\<lparr>input_method = ''stripe'', metadata_subscriptionId = ''sub_1''\<rparr> =
       \<lparr>input_method = ''stripe'',
        metadata_subscriptionId = subscription (data_object sample_webhook)\<rparr>"
    by (simp add: sample_webhook_def)
  have paid:
      "True = (truthy_string (errorCodeOf (addPaymentToOrder sample_host admin_ctx
                 (order_id sample_order)
                 \<lparr>input_method = ''stripe'', metadata_subscriptionId = ''sub_1''\<rparr>)) = None)"
    by (simp add: sample_host_def)
  have one: "order_id sample_order = 1"
    by (simp add: sample_order_def)
  show ?thesis
    using handlePaymentCompleteEvent_settles_when_host_accepts
            [OF refl named ctx found by_method is_complete transition transitioned input paid]
    unfolding one by blast
qed

text \<open>
  C5 as stated fails: the sample event carries a valid order code, channel token and
  payment-method code and is complete, and the host performs the transition; but the
  host answers the payment with an error result, and the handler throws after the
  payment request. No history entry is recorded.
\<close>

theorem handlePaymentCompleteEvent_declined_payment_counterexample:
  "truthy_string (md_orderCode (metadata (data_object sample_webhook))) = Some ''ORD1'' \<and>
   truthy_string (md_channelToken (metadata (data_object sample_webhook))) = Some ''tok'' \<and>
   truthy_string (md_paymentMethodCode (metadata (data_object sample_webhook)))
     = Some ''stripe'' \<and>
   findOneByCode declining_host (createContext declining_host ''tok'') ''ORD1''
     = Some sample_order \<and>
   status (data_object sample_webhook) = ''complete'' \<and>
   handlePaymentCompleteEvent declining_host sample_webhook =
     ([TransitionToState admin_ctx 1 ''ArrangingPayment'',
       AddPaymentToOrder admin_ctx 1
         \<lparr>input_method = ''stripe'', metadata_subscriptionId = ''sub_1''\<rparr>],
      Inl (Error ''Error adding payment to order ORD1: The payment was declined''))"
  by (simp add: handlePaymentCompleteEvent_def Let_def action_defs sample_defs)

text \<open>
  A refusal of the transition that the \<^verbatim>\<open>instanceof\<close> test does not recognise
  does not stop the handler: it goes on to request the payment, and throws only on the
  host's answer to that.
\<close>

lemma handlePaymentCompleteEvent_unrecognised_refusal:
  "handlePaymentCompleteEvent refusing_host sample_webhook =
     ([TransitionToState admin_ctx 1 ''ArrangingPayment'',
       AddPaymentToOrder admin_ctx 1
         \<lparr>input_method = ''stripe'', metadata_subscriptionId = ''sub_1''\<rparr>],
      Inl (Error
        ''Error adding payment to order ORD1: A Payment may only be added when Order is in ArrangingPayment state''))"
  by (simp add: handlePaymentCompleteEvent_def Let_def action_defs sample_defs)


text \<open>
  C10 (amended). Take a \<^verbatim>\<open>complete\<close> event that passed the four checks and
  whose transition and payment the host accepted. When its \<^verbatim>\<open>metadata.endDate\<close>
  is missing (or zero), the handler records a failure note in the order history, logs an
  error and returns normally. Otherwise the handler throws exactly when a step of the
  \<^verbatim>\<open>try\<close> block fails: resolving the Stripe configuration of the payment method
  (before the provider is contacted), the provider's update of the subscription, or
  formatting the end date. The failure note with the error's message is then the last
  effect, and the error thrown is the one caught. When no step fails, the note of the
  new end date is recorded and the handler returns normally.
\<close>

theorem handlePaymentCompleteEvent_end_date_step:
  assumes "md = metadata (data_object webhook)"
      and "truthy_string (md_orderCode md) = Some orderCode"
      and "truthy_string (md_channelToken md) = Some channelToken"
      and "ctx = createContext env channelToken"
      and "findOneByCode env ctx orderCode = Some ord"
      and "truthy_string (md_paymentMethodCode md) = Some paymentMethodCode"
      and "status (data_object webhook) = ''complete''"
      and "state ord = ''ArrangingPayment'' \<or>
           is_Transitioned (transitionToState env ctx (order_id ord) ''ArrangingPayment'')"
      and "sub = subscription (data_object webhook)"
      and "input = \<lparr>input_method = paymentMethodCode, metadata_subscriptionId = sub\<rparr>"
      and "truthy_string (errorCodeOf (addPaymentToOrder env ctx (order_id ord) input)) = None"
      and "paid =
             (if state ord \<noteq> ''ArrangingPayment''
              then [TransitionToState ctx (order_id ord) ''ArrangingPayment''] else [])
             @ [AddPaymentToOrder ctx (order_id ord) input,
                LoggerInfo (''Successfully settled payment for order '' @ code ord
                   @ '' for channel '' @ channelToken)]"
      and "failed = ''!! Failed to set subscription end date for subscription '' @ sub"
  shows "handlePaymentCompleteEvent env webhook =
     (case truthy_number (md_endDate md) of
        None \<Rightarrow>
          (paid @ [CreateHistoryEntryForOrder ctx (order_id ord) (failed @ ''!''),
                   LoggerError
                     (''Incoming webhook is missing metadata.endDate, failed to set end date for subscription ''
                        @ sub)],
           Inr ())
      | Some endDate \<Rightarrow>
          (case getStripeHandler env ctx paymentMethodCode of
             (t, Inl e) \<Rightarrow>
               (paid @ t @ [CreateHistoryEntryForOrder ctx (order_id ord)
                              (failed @ '': '' @ message e)],
                Inl e)
           | (t, Inr h) \<Rightarrow>
               (case subscriptionsUpdate env (stripeClient h) sub endDate of
                  Some e \<Rightarrow>
                    (paid @ t @ [SubscriptionsUpdate (stripeClient h) sub endDate,
                                 CreateHistoryEntryForOrder ctx (order_id ord)
                                   (failed @ '': '' @ message e)],
                     Inl e)
                | None \<Rightarrow>
                    if \<bar>endDate * 1000\<bar> \<le> 8640000000000000 then
                      (paid @ t @ [SubscriptionsUpdate (stripeClient h) sub endDate,
                                   CreateHistoryEntryForOrder ctx (order_id ord)
                                     (''Updated subscription to end at '' @ isoDate env endDate)],
                       Inr ())
                    else
                      (paid @ t @ [SubscriptionsUpdate (stripeClient h) sub endDate,
                                   CreateHistoryEntryForOrder ctx (order_id ord)
                                     (failed @ '': Invalid time value'')],
                       Inl (RangeError ''Invalid time value'')))))"
  using assms
  by (cases "getStripeHandler env (createContext env channelToken) paymentMethodCode")
     (auto simp: handlePaymentCompleteEvent_def Let_def action_defs updateEndDate_cases
      split: option.splits transition_result.splits sum.splits)

text \<open>
  C10 as stated fails: at a host whose payment method has no \<^verbatim>\<open>apiKey\<close>, the
  handler re-throws the UserInputError of \<^verbatim>\<open>getStripeHandler\<close>. The trace has no
  \<open>SubscriptionsUpdate\<close>: the provider was never asked to update the subscription.
\<close>

theorem handlePaymentCompleteEvent_rethrows_configuration_error_counterexample:
  "status (data_object sample_webhook) = ''complete'' \<and>
   md_endDate (metadata (data_object sample_webhook)) = Some 1700000000 \<and>
   handlePaymentCompleteEvent unconfigured_host sample_webhook =
     ([TransitionToState admin_ctx 1 ''ArrangingPayment'',
       AddPaymentToOrder admin_ctx 1
         \<lparr>input_method = ''stripe'', metadata_subscriptionId = ''sub_1''\<rparr>,
       LoggerInfo ''Successfully settled payment for order ORD1 for channel tok'',
       LoggerWarn
         ''CreatePaymentIntent failed, because no apiKey or redirect is configured for stripe'',
       CreateHistoryEntryForOrder admin_ctx 1
         ''!! Failed to set subscription end date for subscription sub_1: Paymentmethod stripe has no apiKey or redirectUrl configured''],
      Inl (UserInputError ''Paymentmethod stripe has no apiKey or redirectUrl configured''))"
  by (simp add: handlePaymentCompleteEvent_def Let_def action_defs sample_defs
      updateEndDate_def getStripeHandler_def getPaymentMethodByCode_def)


theorem handlePaymentCompleteEvent_end_date_step_witness:
  "handlePaymentCompleteEvent sample_host undated_webhook =
     ([TransitionToState admin_ctx 1 ''ArrangingPayment'',
       AddPaymentToOrder admin_ctx 1
         \<lparr>input_method = ''stripe'', metadata_subscriptionId = ''sub_1''\<rparr>,
       LoggerInfo ''Successfully settled payment for order ORD1 for channel tok'',
       CreateHistoryEntryForOrder admin_ctx 1
         ''!! Failed to set subscription end date for subscription sub_1!'',
       LoggerError
         ''Incoming webhook is missing metadata.endDate, failed to set end date for subscription sub_1''],
      Inr ()) \<and>
   handlePaymentCompleteEvent sample_host sample_webhook =
     ([TransitionToState admin_ctx 1 ''ArrangingPayment'',
       AddPaymentToOrder admin_ctx 1
         \<lparr>input_method = ''stripe'', metadata_subscriptionId = ''sub_1''\<rparr>,
       LoggerInfo ''Successfully settled payment for order ORD1 for channel tok'',
       SubscriptionsUpdate ''sk_test'' ''sub_1'' 1700000000,
       CreateHistoryEntryForOrder admin_ctx 1 ''Updated subscription to end at 2023-11-14''],
      Inr ())"
proof -
  have undated_event:
    "handlePaymentCompleteEvent sample_host undated_webhook =
     ([TransitionToState admin_ctx 1 ''ArrangingPayment'',
       AddPaymentToOrder admin_ctx 1
         \<lparr>input_method = ''stripe'', metadata_subscriptionId = ''sub_1''\<rparr>,
       LoggerInfo ''Successfully settled payment for order ORD1 for channel tok'',
       CreateHistoryEntryForOrder admin_ctx 1
         ''!! Failed to set subscription end date for subscription sub_1!'',
       LoggerError
         ''Incoming webhook is missing metadata.endDate, failed to set end date for subscription sub_1''],
      Inr ())"
  proof -
    have named:
        "truthy_string (md_orderCode (metadata (data_object undated_webhook))) = Some ''ORD1''"
        "truthy_string (md_channelToken (metadata (data_object undated_webhook))) = Some ''tok''"
      by (simp_all add: undated_webhook_def)
    have ctx: "admin_ctx = createContext sample_host ''tok''"
      by (simp add: admin_ctx_def createContext_def sample_host_def)
    have found: "findOneByCode sample_host admin_ctx ''ORD1'' = Some sample_order"
      by (simp add: sample_host_def)
    have by_method:
        "truthy_string (md_paymentMethodCode (metadata (data_object undated_webhook)))
           = Some ''stripe''"
      by (simp add: undated_webhook_def)
    have is_complete: "status (data_object undated_webhook) = ''complete''"
      by (simp add: undated_webhook_def)
    have transitioned:
        "state sample_order = ''ArrangingPayment'' \<or>
         is_Transitioned
           (transitionToState sample_host admin_ctx (order_id sample_order) ''ArrangingPayment'')"
      by (simp add: sample_host_def)
    have paid:
        "truthy_string (errorCodeOf (addPaymentToOrder sample_host admin_ctx
           (order_id sample_order)
           \<lparr>input_method = ''stripe'',
            metadata_subscriptionId = subscription (data_object undated_webhook)\<rparr>)) = None"
      by (simp add: sample_host_def)
    have undated: "truthy_number (md_endDate (metadata (data_object undated_webhook))) = None"
      by (simp add: undated_webhook_def)
    show ?thesis
      using handlePaymentCompleteEvent_end_date_step
              [OF refl named ctx found by_method is_complete transitioned refl refl paid refl refl]
            undated
      by (simp add: sample_order_def undated_webhook_def)
  qed
  have dated_event:
    "handlePaymentCompleteEvent sample_host sample_webhook =
     ([TransitionToState admin_ctx 1 ''ArrangingPayment'',
       AddPaymentToOrder admin_ctx 1
         \<lparr>input_method = ''stripe'', metadata_subscriptionId = ''sub_1''\<rparr>,
       LoggerInfo ''Successfully settled payment for order ORD1 for channel tok'',
       SubscriptionsUpdate ''sk_test'' ''sub_1'' 1700000000,
       CreateHistoryEntryForOrder admin_ctx 1 ''Updated subscription to end at 2023-11-14''],
      Inr ())"
  proof -
    have named:
        "truthy_string (md_orderCode (metadata (data_object sample_webhook))) = Some ''ORD1''"
        "truthy_string (md_channelToken (metadata (data_object sample_webhook))) = Some ''tok''"
      by (simp_all add: sample_webhook_def)
    have ctx: "admin_ctx = createContext sample_host ''tok''"
      by (simp add: admin_ctx_def createContext_def sample_host_def)
    have found: "findOneByCode sample_host admin_ctx ''ORD1'' = Some sample_order"
      by (simp add: sample_host_def)
    have by_method:
        "truthy_string (md_paymentMethodCode (metadata (data_object sample_webhook)))
           = Some ''stripe''"
      by (simp add: sample_webhook_def)
    have is_complete: "status (data_object sample_webhook) = ''complete''"
      by (simp add: sample_webhook_def)
    have transitioned:
        "state sample_order = ''ArrangingPayment'' \<or>
         is_Transitioned
           (transitionToState sample_host admin_ctx (order_id sample_order) ''ArrangingPayment'')"
      by (simp add: sample_host_def)
    have paid:
        "truthy_string (errorCodeOf (addPaymentToOrder sample_host admin_ctx
           (order_id sample_order)
           \<lparr>input_method = ''stripe'',
            metadata_subscriptionId = subscription (data_object sample_webhook)\<rparr>)) = None"
      by (simp add: sample_host_def)
    have dated:
        "truthy_number (md_endDate (metadata (data_object sample_webhook))) = Some 1700000000"
      by (simp add: sample_webhook_def)
    have handler:
        "getStripeHandler sample_host admin_ctx ''stripe'' =
           ([], Inr \<lparr>stripeClient = ''sk_test'', redirectUrl = ''https://shop/back'',
                     downpaymentLabel = None, prorationLabel = None\<rparr>)"
      by (simp add: getStripeHandler_def getPaymentMethodByCode_def sample_host_def
          sample_method_def succeed_def)
    have accepted: "subscriptionsUpdate sample_host ''sk_test'' ''sub_1'' 1700000000 = None"
      by (simp add: sample_host_def)
    show ?thesis
      using handlePaymentCompleteEvent_end_date_step
              [OF refl named ctx found by_method is_complete transitioned refl refl paid refl refl]
            dated handler accepted
      by (simp add: sample_order_def sample_webhook_def sample_host_def)
  qed
  from undated_event dated_event show ?thesis by (rule conjI)
qed

section \<open>Properties of the popularity plugin\<close>

lemma fold_saveScore_other:
  "p \<notin> set ps \<Longrightarrow> fold (\<lambda>p. saveScore p (h p)) ps stored p = stored p"
  by (induction ps arbitrary: stored) (auto simp: saveScore_def)

lemma fold_saveScore_member:
  "p \<in> set ps \<Longrightarrow> fold (\<lambda>p. saveScore p (h p)) ps stored p = h p"
proof (induction ps arbitrary: stored)
  case Nil
  then show ?case by simp
next
  case (Cons q qs)
  show ?case
  proof (cases "p \<in> set qs")
    case True
    with Cons.IH show ?thesis by simp
  next
    case False
    with Cons.prems have "p = q" by simp
    have "fold (\<lambda>p. saveScore p (h p)) (q # qs) stored q
            = fold (\<lambda>p. saveScore p (h p)) qs (saveScore q (h q) stored) q"
      by simp
    also from False \<open>p = q\<close> have "\<dots> = saveScore q (h q) stored q"
      by (simp add: fold_saveScore_other)
    also have "\<dots> = h q"
      by (simp add: saveScore_def)
    finally show ?thesis using \<open>p = q\<close> by simp
  qed
qed

lemma persistScores_member:
  "p \<in> set ps \<Longrightarrow> persistScores os ps stored p = score os ps p"
  by (simp add: persistScores_def fold_saveScore_member)

lemma persistScores_other:
  "p \<notin> set ps \<Longrightarrow> persistScores os ps stored p = stored p"
  by (simp add: persistScores_def fold_saveScore_other)

lemma volume_unsold:
  "\<forall>sl \<in> set os. p \<notin> fst ` set (sale_lines sl) \<Longrightarrow> volume os p = 0"
proof -
  assume unsold: "\<forall>sl \<in> set os. p \<notin> fst ` set (sale_lines sl)"
  have "filter (\<lambda>l. fst l = p) (sale_lines sl) = []" if "sl \<in> set os" for sl
    using that unsold by (auto simp: filter_empty_conv)
  then show ?thesis by (simp add: volume_def)
qed

text \<open>
  C1. For every product of the channel, the score-calculation job stores in the
  product's \<^verbatim>\<open>popularityScore\<close> the score computed from the channel's settled
  orders; a product that no settled order of the channel contains gets the score 0.
\<close>

theorem processJob_persists_product_scores:
  assumes "p \<in> set (channelProducts s tok)"
      and "settledSales = settledOrders tok (orders s)"
  shows "productPopularityScore (processJob \<lparr>job_channelToken = tok, job_ctx = ctx\<rparr> s) p
           = score settledSales (channelProducts s tok) p
       \<and> ((\<forall>sl \<in> set settledSales. p \<notin> fst ` set (sale_lines sl)) \<longrightarrow>
            productPopularityScore (processJob \<lparr>job_channelToken = tok, job_ctx = ctx\<rparr> s) p = 0)"
  using assms by (simp add: processJob_def Let_def persistScores_member score_def volume_unsold)


lemma ownScore_Collection [simp]:
  "ownScore f (Collection i ps sc cs) = sum_list (map f (remdups ps))"
  by (simp add: ownScore_def)

lemma aggregate_wellformed:
  "c \<in> set (subcollections (aggregate f t)) \<Longrightarrow>
   popularityScore c = ownScore f c + sum_list (map popularityScore (children c))"
proof (induction t arbitrary: c)
  case (Collection i ps sc cs)
  then show ?case
    by (auto simp: Let_def)
qed

lemma subcollections_self: "c \<in> set (subcollections c)"
  by (cases c) simp

lemma sum_list_member_le: "(x::nat) \<in> set xs \<Longrightarrow> x \<le> sum_list xs"
  by (induction xs) auto

lemma descendant_le:
  "\<forall>c \<in> set (subcollections t).
      popularityScore c = own c + sum_list (map popularityScore (children c)) \<Longrightarrow>
   d \<in> set (subcollections t) \<Longrightarrow> popularityScore d \<le> popularityScore t"
proof (induction t arbitrary: d)
  case (Collection i ps sc cs)
  show ?case
  proof (cases "d = Collection i ps sc cs")
    case True
    then show ?thesis by simp
  next
    case False
    with Collection.prems(2) obtain k where k: "k \<in> set cs" "d \<in> set (subcollections k)"
      by auto
    from Collection.prems(1) k(1)
    have "\<forall>c \<in> set (subcollections k).
            popularityScore c = own c + sum_list (map popularityScore (children c))"
      by auto
    with Collection.IH k have "popularityScore d \<le> popularityScore k" by blast
    also from k(1) have "popularityScore k \<le> sum_list (map popularityScore cs)"
      by (simp add: sum_list_member_le)
    also from Collection.prems(1)
    have "\<dots> \<le> popularityScore (Collection i ps sc cs)"
      by simp
    finally show ?thesis .
  qed
qed

lemma subcollections_trans:
  "c \<in> set (subcollections t) \<Longrightarrow> d \<in> set (subcollections c) \<Longrightarrow>
   d \<in> set (subcollections t)"
proof (induction t)
  case (Collection i ps sc cs)
  then show ?case by (cases "c = Collection i ps sc cs") auto
qed

lemma aggregate_total:
  "popularityScore (aggregate f t) = sum_list (map (ownScore f) (subcollections t))"
proof (induction t)
  case (Collection i ps sc cs)
  have "sum_list (map popularityScore (map (aggregate f) cs))
          = sum_list (map (\<lambda>k. sum_list (map (ownScore f) (subcollections k))) cs)"
    using Collection.IH by (simp add: comp_def cong: map_cong)
  also have "\<dots> = sum_list (map (ownScore f) (concat (map subcollections cs)))"
    by (induction cs) simp_all
  finally show ?case by (simp add: Let_def comp_def)
qed


lemma wellformed_total:
  "\<forall>c \<in> set (subcollections t).
      popularityScore c = own c + sum_list (map popularityScore (children c)) \<Longrightarrow>
   popularityScore t = sum_list (map own (subcollections t))"
proof (induction t)
  case (Collection i ps sc cs)
  have "popularityScore k = sum_list (map own (subcollections k))" if "k \<in> set cs" for k
    using that Collection.IH [of k] Collection.prems by auto
  then have "sum_list (map popularityScore cs)
               = sum_list (map (\<lambda>k. sum_list (map own (subcollections k))) cs)"
    by (simp cong: map_cong)
  also have "\<dots> = sum_list (map own (concat (map subcollections cs)))"
    by (induction cs) simp_all
  finally show ?case using Collection.prems by simp
qed


lemma processJob_fields [simp]:
  "orders (processJob j s) = orders s"
  "channelProducts (processJob j s) = channelProducts s"
  "jobQueue (processJob j s) = jobQueue s"
  by (simp_all add: processJob_def Let_def)


lemma runWorker_after_request:
  "runWorker (calculateScores queueService ctx tok s) =
     processJob \<lparr>job_channelToken = tok, job_ctx = ctx\<rparr>
       (fold processJob (jobQueue s) (s\<lparr>jobQueue := []\<rparr>))"
  by (simp add: runWorker_def calculateScores_def queueService_def)

lemma settledOrders_channel:
  "settledOrders tok os = filter settled (filter (\<lambda>sl. sale_channel sl = tok) os)"
  by (simp add: settledOrders_def)

text \<open>
  C2. After the score-calculation job, every collection of the channel's tree, at any
  depth, carries the score of its own products plus the sum of the scores of its child
  collections. Its score is therefore the sum over all collections below it and
  itself, and no collection below it has a larger score.
\<close>

theorem processJob_aggregates_collection_tree:
  assumes "scored = processJob j s"
      and "root = channelCollections scored (job_channelToken j)"
      and "c \<in> set (subcollections root)"
  shows "popularityScore c
           = ownScore (productPopularityScore scored) c
             + sum_list (map popularityScore (children c))
       \<and> popularityScore c
           = sum_list (map (ownScore (productPopularityScore scored)) (subcollections c))
       \<and> (\<forall>d \<in> set (subcollections c). popularityScore d \<le> popularityScore c)"
proof -
  let ?f = "productPopularityScore scored"
  from assms have root: "root = aggregate ?f (channelCollections s (job_channelToken j))"
    by (simp add: processJob_def Let_def)
  have below: "popularityScore d = ownScore ?f d + sum_list (map popularityScore (children d))"
    if "d \<in> set (subcollections c)" for d
  proof -
    from assms(3) that have "d \<in> set (subcollections root)"
      by (rule subcollections_trans)
    with root show ?thesis by (simp add: aggregate_wellformed)
  qed
  then have wf: "\<forall>d \<in> set (subcollections c).
      popularityScore d = ownScore ?f d + sum_list (map popularityScore (children d))"
    by blast
  from below [OF subcollections_self]
  have "popularityScore c = ownScore ?f c + sum_list (map popularityScore (children c))" .
  moreover from wf have "popularityScore c = sum_list (map (ownScore ?f) (subcollections c))"
    by (rule wellformed_total)
  moreover from wf have "\<forall>d \<in> set (subcollections c). popularityScore d \<le> popularityScore c"
    using descendant_le by blast
  ultimately show ?thesis by blast
qed

text \<open>
  C3. The handler of the route does one thing: it calls
  \<^verbatim>\<open>addScoreCalculatingJobToQueue\<close> with the path's token and the request context.
  With the queueing service this appends one job to the queue and leaves every score,
  of products and of collections, as it was: the computation is the worker's.
\<close>

theorem calculateScores_only_enqueues:
  "calculateScores sortService ctx mychanneltoken st
     = addScoreCalculatingJobToQueue sortService mychanneltoken ctx st
   \<and> calculateScores queueService ctx mychanneltoken s
     = s\<lparr>jobQueue := jobQueue s @ [\<lparr>job_channelToken = mychanneltoken, job_ctx = ctx\<rparr>]\<rparr>
   \<and> productPopularityScore (calculateScores queueService ctx mychanneltoken s)
     = productPopularityScore s
   \<and> channelCollections (calculateScores queueService ctx mychanneltoken s)
     = channelCollections s"
  by (simp add: calculateScores_def queueService_def)

text \<open>
  C7. Two runs of the score-calculation job for the channel named by the path token,
  on shops that differ only in their orders and whose orders of that channel are the
  same, store the same product scores and the same collection scores.
\<close>

theorem scores_depend_on_own_channel_only:
  assumes "filter (\<lambda>sl. sale_channel sl = tok) os1 = filter (\<lambda>sl. sale_channel sl = tok) os2"
      and "s1 = runWorker (calculateScores queueService ctx tok (s\<lparr>orders := os1, jobQueue := []\<rparr>))"
      and "s2 = runWorker (calculateScores queueService ctx tok (s\<lparr>orders := os2, jobQueue := []\<rparr>))"
  shows "productPopularityScore s1 = productPopularityScore s2
       \<and> channelCollections s1 = channelCollections s2"
proof -
  from assms(1) have "settledOrders tok os1 = settledOrders tok os2"
    by (simp only: settledOrders_channel)
  with assms(2,3) show ?thesis
    by (simp add: runWorker_after_request processJob_def Let_def)
qed






lemmas e2e_defs = e2e_shop_def e2e_sale_def e2e_tree_def e2e_job_def e2e_scored_def
  late_sale_def other_sale_def

lemmas scoring_defs = processJob_def persistScores_def saveScore_def score_def maxVolume_def
  volume_def settledOrders_def runWorker_def calculateScores_def queueService_def

theorem processJob_persists_product_scores_witness:
  "productPopularityScore (processJob e2e_job e2e_shop) 1 = 1000 \<and>
   productPopularityScore (processJob e2e_job e2e_shop) 2 = 0 \<and>
   productPopularityScore (processJob e2e_job e2e_shop) 3 = 800"
proof -
  let ?sales = "settledOrders ''e2e-default-channel'' (orders e2e_shop)"
  let ?products = "channelProducts e2e_shop ''e2e-default-channel''"
  have products: "1 \<in> set ?products" "2 \<in> set ?products" "3 \<in> set ?products"
    by (simp_all add: e2e_shop_def)
  have unsold: "\<forall>sl \<in> set ?sales. 2 \<notin> fst ` set (sale_lines sl)"
    by (simp add: e2e_defs settledOrders_def)
  have scores: "score ?sales ?products 1 = 1000" "score ?sales ?products 3 = 800"
    by (simp_all add: e2e_defs scoring_defs)
  from processJob_persists_product_scores [OF products(1) refl, of sample_ctx] processJob_persists_product_scores [OF products(2) refl, of sample_ctx]
       processJob_persists_product_scores [OF products(3) refl, of sample_ctx] unsold scores
  show ?thesis
    unfolding e2e_job_def by simp
qed


lemma e2e_job_scores:
  "productPopularityScore (processJob e2e_job e2e_shop) 1 = 1000"
  "productPopularityScore (processJob e2e_job e2e_shop) 2 = 0"
  "productPopularityScore (processJob e2e_job e2e_shop) 3 = 800"
  by (simp_all add: e2e_defs scoring_defs Let_def)

lemma e2e_job_tree:
  "channelCollections (processJob e2e_job e2e_shop) ''e2e-default-channel'' =
     Collection 1 [] 2800
       [Collection 2 [1] 1000 [], Collection 3 [1] 1000 [], Collection 4 [2] 0 [],
        Collection 5 [3] 800 []]"
  by (simp add: e2e_defs scoring_defs Let_def)

theorem processJob_aggregates_collection_tree_witness:
  "popularityScore (channelCollections (processJob e2e_job e2e_shop) ''e2e-default-channel'')
     = 0 + sum_list [1000, 1000, 0, 800] \<and>
   popularityScore (Collection 5 [3] 800 []) = 800 + sum_list []"
proof -
  let ?scored = "processJob e2e_job e2e_shop"
  let ?root = "channelCollections ?scored ''e2e-default-channel''"
  have token: "?root = channelCollections ?scored (job_channelToken e2e_job)"
    by (simp add: e2e_job_def)
  have root: "?root \<in> set (subcollections ?root)"
    by (rule subcollections_self)
  have leaf: "Collection 5 [3] 800 [] \<in> set (subcollections ?root)"
    by (simp add: e2e_job_tree)
  from processJob_aggregates_collection_tree [OF refl token root] processJob_aggregates_collection_tree [OF refl token leaf]
  show ?thesis
    by (simp add: e2e_job_tree e2e_job_scores)
qed

theorem scores_depend_on_own_channel_only_witness:
  "productPopularityScore
     (runWorker (calculateScores queueService sample_ctx ''e2e-default-channel''
        (e2e_shop\<lparr>orders := orders e2e_shop @ [other_sale], jobQueue := []\<rparr>)))
   = productPopularityScore
     (runWorker (calculateScores queueService sample_ctx ''e2e-default-channel''
        (e2e_shop\<lparr>orders := orders e2e_shop, jobQueue := []\<rparr>)))"
proof -
  have same: "filter (\<lambda>sl. sale_channel sl = ''e2e-default-channel'')
                (orders e2e_shop @ [other_sale])
              = filter (\<lambda>sl. sale_channel sl = ''e2e-default-channel'') (orders e2e_shop)"
    by (simp add: other_sale_def)
  from scores_depend_on_own_channel_only [OF same refl refl] show ?thesis by simp
qed


end
